theory Spec2Isabelle
  imports Main "HOL-Library.AList" "HOL-Library.Multiset"
begin

section \<open>Data model (models/types.ts)\<close>

text \<open>
  Identifiers, e-mail addresses and tokens are JavaScript strings; a \<open>Date\<close> is its
  time value, the number of milliseconds since the epoch, as an integer.  A field name
  that several interfaces share (\<open>id\<close>, \<open>userId\<close>, \<open>createdAt\<close>,
  \<open>content\<close>, \<open>visibility\<close>, \<open>posts\<close>) carries the interface as a prefix
  in all but one of them, and so do \<open>type\<close>, \<open>text\<close> and \<open>total\<close>.
\<close>

type_synonym Date = int

datatype ContentType = Text | Image | Video

datatype Visibility = FriendsOnly | Public

datatype FriendRequestStatus = Pending | Accepted | Declined

record User =
  user_id :: string
  email :: string
  username :: string
  passwordHash :: string
  user_createdAt :: Date

record Session =
  session_id :: string
  session_userId :: string
  token :: string
  expiresAt :: Date

text \<open>
  \<open>PostContent\<close> with the two optional fields of \<open>PostContentWithFile\<close>
  (PostService.ts): \<open>createPost\<close> and \<open>updatePost\<close> store the content object they
  are given, so a stored post can carry \<open>mimeType\<close> and \<open>fileSize\<close>.
  An optional field that is absent (\<open>undefined\<close>) is \<open>None\<close>.
\<close>

record PostContent =
  content_type :: ContentType
  content_text :: "string option"
  mediaUrl :: "string option"
  mimeType :: "string option"
  fileSize :: "int option"

record Post =
  post_id :: string
  authorId :: string
  content :: PostContent
  visibility :: Visibility
  createdAt :: Date
  updatedAt :: Date
  isEdited :: bool

record PostUpdate =
  update_content :: "PostContent option"
  update_visibility :: "Visibility option"

record FriendRequest =
  request_id :: string
  fromUserId :: string
  toUserId :: string
  status :: FriendRequestStatus
  request_createdAt :: Date

record Friendship =
  userId :: string
  friendId :: string
  friendship_createdAt :: Date

record Pagination =
  limit :: int
  offset :: int

record FeedResult =
  feed_posts :: "Post list"
  hasMore :: bool
  feed_total :: nat


section \<open>Errors (models/errors.ts)\<close>

text \<open>
  One constructor for each subclass of \<open>AppError\<close>, with the constructor argument
  where the class takes one.  \<open>PlainError\<close> is JavaScript's built-in \<open>Error\<close> with
  its message: it is not an \<open>AppError\<close> and has neither code nor status.
  \<open>TypeError\<close> is the platform's error for a property read on \<open>null\<close>.
  \<open>UntypedResult\<close> is not thrown: it stands for a value that the source returns and
  that has no place in the typed records here (see \<open>deserializePost\<close>).
\<close>

datatype AppError =
    DuplicateEmailError
  | DuplicateUsernameError
  | InvalidCredentialsError
  | SessionExpiredError
  | InvalidSessionError
  | UnauthorizedError
  | ForbiddenError string
  | EmptyContentError
  | InvalidFormatError string
  | FileTooLargeError string
  | PostNotFoundError
  | AccessDeniedError
  | SelfFriendRequestError
  | DuplicateFriendRequestError
  | FriendRequestNotFoundError
  | NotFriendsError
  | UserNotFoundError

datatype error = App AppError | PlainError string | TypeError | UntypedResult

fun code :: "AppError \<Rightarrow> string" where
  "code DuplicateEmailError = ''DUPLICATE_EMAIL''"
| "code DuplicateUsernameError = ''DUPLICATE_USERNAME''"
| "code InvalidCredentialsError = ''INVALID_CREDENTIALS''"
| "code SessionExpiredError = ''SESSION_EXPIRED''"
| "code InvalidSessionError = ''INVALID_SESSION''"
| "code UnauthorizedError = ''UNAUTHORIZED''"
| "code (ForbiddenError m) = ''FORBIDDEN''"
| "code EmptyContentError = ''EMPTY_CONTENT''"
| "code (InvalidFormatError m) = ''INVALID_FORMAT''"
| "code (FileTooLargeError m) = ''FILE_TOO_LARGE''"
| "code PostNotFoundError = ''POST_NOT_FOUND''"
| "code AccessDeniedError = ''ACCESS_DENIED''"
| "code SelfFriendRequestError = ''SELF_FRIEND_REQUEST''"
| "code DuplicateFriendRequestError = ''DUPLICATE_REQUEST''"
| "code FriendRequestNotFoundError = ''REQUEST_NOT_FOUND''"
| "code NotFriendsError = ''NOT_FRIENDS''"
| "code UserNotFoundError = ''USER_NOT_FOUND''"

text \<open>\<open>e instanceof AppError\<close>.\<close>

fun isAppError :: "error \<Rightarrow> bool" where
  "isAppError (App e) = True"
| "isAppError (PlainError m) = False"
| "isAppError TypeError = False"
| "isAppError UntypedResult = False"


section \<open>The in-memory store (storage/InMemoryStorage.ts)\<close>

text \<open>
  A JavaScript \<open>Map\<close> keeps its entries in insertion order and \<open>set\<close> on a present
  key replaces the value in place: an association list with \<open>map_of\<close> for \<open>get\<close>,
  \<open>AList.update\<close> for \<open>set\<close>, \<open>AList.delete\<close> for \<open>delete\<close> and
  \<open>map snd\<close> for \<open>values()\<close>.  A \<open>Set\<close> of strings is a list in insertion
  order.  The \<open>mediaFiles\<close> map is left out: no operation below reads or writes it.
\<close>

record InMemoryStorage =
  users :: "(string \<times> User) list"
  usersByEmail :: "(string \<times> string) list"
  usersByUsername :: "(string \<times> string) list"
  posts :: "(string \<times> Post) list"
  postsByAuthor :: "(string \<times> string list) list"
  sessions :: "(string \<times> Session) list"
  sessionsByToken :: "(string \<times> string) list"
  sessionsByUser :: "(string \<times> string list) list"
  friendRequests :: "(string \<times> FriendRequest) list"
  friendships :: "(string \<times> Friendship) list"
  friendsByUser :: "(string \<times> string list) list"

definition emptyStorage :: InMemoryStorage where
  "emptyStorage = \<lparr> users = [], usersByEmail = [], usersByUsername = [], posts = [],
     postsByAuthor = [], sessions = [], sessionsByToken = [], sessionsByUser = [],
     friendRequests = [], friendships = [], friendsByUser = [] \<rparr>"

text \<open>\<open>Set.prototype.add\<close> and \<open>Set.prototype.delete\<close>.\<close>

definition set_add :: "'a \<Rightarrow> 'a list \<Rightarrow> 'a list" where
  "set_add x xs = (if x \<in> set xs then xs else xs @ [x])"

definition set_delete :: "'a \<Rightarrow> 'a list \<Rightarrow> 'a list" where
  "set_delete x xs = removeAll x xs"

text \<open>
  \<open>m.get(k)?.delete(x)\<close>: the set stored under \<open>k\<close> is changed in place; nothing
  happens when \<open>k\<close> has no entry.
\<close>

definition index_delete ::
  "string \<Rightarrow> string \<Rightarrow> (string \<times> string list) list \<Rightarrow> (string \<times> string list) list" where
  "index_delete k x m =
     (case map_of m k of None \<Rightarrow> m | Some s \<Rightarrow> AList.update k (set_delete x s) m)"

text \<open>
  \<open>if (!m.has(k)) m.set(k, new Set()); m.get(k)!.add(x)\<close>: a missing key gets a new
  set at the end of the map, then the set is changed in place.
\<close>

definition index_add ::
  "string \<Rightarrow> string \<Rightarrow> (string \<times> string list) list \<Rightarrow> (string \<times> string list) list" where
  "index_add k x m =
     (case map_of m k of
        None \<Rightarrow> AList.update k (set_add x []) m
      | Some s \<Rightarrow> AList.update k (set_add x s) m)"

definition getUserById :: "InMemoryStorage \<Rightarrow> string \<Rightarrow> User option" where
  "getUserById st i = map_of (users st) i"

definition getPostById :: "InMemoryStorage \<Rightarrow> string \<Rightarrow> Post option" where
  "getPostById st i = map_of (posts st) i"

definition getAllPosts :: "InMemoryStorage \<Rightarrow> Post list" where
  "getAllPosts st = map snd (posts st)"

definition storage_createPost :: "InMemoryStorage \<Rightarrow> Post \<Rightarrow> InMemoryStorage" where
  "storage_createPost st post =
     st\<lparr> posts := AList.update (post_id post) post (posts st),
         postsByAuthor := index_add (authorId post) (post_id post) (postsByAuthor st) \<rparr>"

definition storage_updatePost :: "InMemoryStorage \<Rightarrow> Post \<Rightarrow> InMemoryStorage" where
  "storage_updatePost st post = st\<lparr> posts := AList.update (post_id post) post (posts st) \<rparr>"

definition getSessionById :: "InMemoryStorage \<Rightarrow> string \<Rightarrow> Session option" where
  "getSessionById st i = map_of (sessions st) i"

text \<open>\<open>sessionId ? this.sessions.get(sessionId) : undefined\<close>: the empty string is falsy.\<close>

definition getSessionByToken :: "InMemoryStorage \<Rightarrow> string \<Rightarrow> Session option" where
  "getSessionByToken st t =
     (case map_of (sessionsByToken st) t of
        None \<Rightarrow> None
      | Some sessionId \<Rightarrow> if sessionId = [] then None else map_of (sessions st) sessionId)"

definition createSession :: "InMemoryStorage \<Rightarrow> Session \<Rightarrow> InMemoryStorage" where
  "createSession st s =
     st\<lparr> sessions := AList.update (session_id s) s (sessions st),
         sessionsByToken := AList.update (token s) (session_id s) (sessionsByToken st),
         sessionsByUser := index_add (session_userId s) (session_id s) (sessionsByUser st) \<rparr>"

definition deleteSession :: "InMemoryStorage \<Rightarrow> string \<Rightarrow> InMemoryStorage \<times> bool" where
  "deleteSession st i =
     (case map_of (sessions st) i of
        None \<Rightarrow> (st, False)
      | Some s \<Rightarrow>
          (st\<lparr> sessions := AList.delete i (sessions st),
               sessionsByToken := AList.delete (token s) (sessionsByToken st),
               sessionsByUser := index_delete (session_userId s) i (sessionsByUser st) \<rparr>,
           True))"

definition createFriendRequest :: "InMemoryStorage \<Rightarrow> FriendRequest \<Rightarrow> InMemoryStorage" where
  "createFriendRequest st r =
     st\<lparr> friendRequests := AList.update (request_id r) r (friendRequests st) \<rparr>"

definition getFriendRequestById :: "InMemoryStorage \<Rightarrow> string \<Rightarrow> FriendRequest option" where
  "getFriendRequestById st i = map_of (friendRequests st) i"

text \<open>\<open>Array.from(this.friendRequests.values()).find(...)\<close>: the first match, in map order.\<close>

definition getFriendRequestBetweenUsers ::
  "InMemoryStorage \<Rightarrow> string \<Rightarrow> string \<Rightarrow> FriendRequest option" where
  "getFriendRequestBetweenUsers st f t =
     find (\<lambda>req. fromUserId req = f \<and> toUserId req = t \<and> status req = Pending)
       (map snd (friendRequests st))"

definition updateFriendRequest :: "InMemoryStorage \<Rightarrow> FriendRequest \<Rightarrow> InMemoryStorage" where
  "updateFriendRequest st r =
     st\<lparr> friendRequests := AList.update (request_id r) r (friendRequests st) \<rparr>"

text \<open>The composite key \<open>`${userId}:${friendId}`\<close>.\<close>

definition friendshipKey :: "string \<Rightarrow> string \<Rightarrow> string" where
  "friendshipKey u f = u @ '':'' @ f"

definition createFriendship :: "InMemoryStorage \<Rightarrow> Friendship \<Rightarrow> InMemoryStorage" where
  "createFriendship st fr =
     st\<lparr> friendships := AList.update (friendshipKey (userId fr) (friendId fr)) fr (friendships st),
         friendsByUser := index_add (userId fr) (friendId fr) (friendsByUser st) \<rparr>"

text \<open>\<open>this.friendsByUser.get(userId1)?.has(userId2) ?? false\<close>.\<close>

definition areFriends :: "InMemoryStorage \<Rightarrow> string \<Rightarrow> string \<Rightarrow> bool" where
  "areFriends st userId1 userId2 =
     (case map_of (friendsByUser st) userId1 of None \<Rightarrow> False | Some s \<Rightarrow> userId2 \<in> set s)"

definition deleteFriendship :: "InMemoryStorage \<Rightarrow> string \<Rightarrow> string \<Rightarrow> InMemoryStorage \<times> bool" where
  "deleteFriendship st u f =
     (st\<lparr> friendships := AList.delete (friendshipKey u f) (friendships st),
          friendsByUser := index_delete u f (friendsByUser st) \<rparr>,
      map_of (friendships st) (friendshipKey u f) \<noteq> None)"


section \<open>Friend service (services/FriendService.ts)\<close>

text \<open>
  Every operation takes the store and returns the store it leaves behind together with
  its outcome, \<open>Inl\<close> the error thrown or \<open>Inr\<close> the value returned.  What the source
  draws from the environment is an argument: \<open>newId\<close> is the result of \<open>uuidv4()\<close>
  and \<open>now\<close> the time value of \<open>new Date()\<close>.
\<close>

definition sendFriendRequest ::
  "string \<Rightarrow> Date \<Rightarrow> InMemoryStorage \<Rightarrow> string \<Rightarrow> string \<Rightarrow> InMemoryStorage \<times> (error + FriendRequest)" where
  "sendFriendRequest newId now st fromU toU =
     (if fromU = toU then (st, Inl (App SelfFriendRequestError))
      else if getUserById st fromU = None then (st, Inl (App UserNotFoundError))
      else if getUserById st toU = None then (st, Inl (App UserNotFoundError))
      else if areFriends st fromU toU then (st, Inl (App DuplicateFriendRequestError))
      else if getFriendRequestBetweenUsers st fromU toU \<noteq> None
        then (st, Inl (App DuplicateFriendRequestError))
      else if getFriendRequestBetweenUsers st toU fromU \<noteq> None
        then (st, Inl (App DuplicateFriendRequestError))
      else
        (let friendRequest = \<lparr> request_id = newId, fromUserId = fromU, toUserId = toU,
                                status = Pending, request_createdAt = now \<rparr>
         in (createFriendRequest st friendRequest, Inr friendRequest)))"

text \<open>
  \<open>request.status = ...\<close> writes to the object that the map holds under
  \<open>requestId\<close>; \<open>updateFriendRequest\<close> then stores the same object under its own
  \<open>id\<close>.  \<open>setStatus\<close> is both steps.
\<close>

definition setStatus ::
  "InMemoryStorage \<Rightarrow> string \<Rightarrow> FriendRequest \<Rightarrow> FriendRequestStatus \<Rightarrow> InMemoryStorage" where
  "setStatus st requestId request s =
     (let request' = request\<lparr> status := s \<rparr>;
          st1 = st\<lparr> friendRequests := AList.update requestId request' (friendRequests st) \<rparr>
      in updateFriendRequest st1 request')"

definition acceptFriendRequest ::
  "Date \<Rightarrow> InMemoryStorage \<Rightarrow> string \<Rightarrow> string \<Rightarrow> InMemoryStorage \<times> (error + unit)" where
  "acceptFriendRequest now st requestId actingUserId =
     (case getFriendRequestById st requestId of
        None \<Rightarrow> (st, Inl (App FriendRequestNotFoundError))
      | Some request \<Rightarrow>
          if toUserId request \<noteq> actingUserId
            then (st, Inl (App (ForbiddenError ''Only the recipient can accept a friend request'')))
          else if status request \<noteq> Pending then (st, Inl (App FriendRequestNotFoundError))
          else
            (let st1 = setStatus st requestId request Accepted;
                 friendship1 = \<lparr> userId = fromUserId request, friendId = toUserId request,
                                  friendship_createdAt = now \<rparr>;
                 friendship2 = \<lparr> userId = toUserId request, friendId = fromUserId request,
                                  friendship_createdAt = now \<rparr>;
                 st2 = createFriendship st1 friendship1;
                 st3 = createFriendship st2 friendship2
             in (st3, Inr ())))"

definition declineFriendRequest ::
  "InMemoryStorage \<Rightarrow> string \<Rightarrow> string \<Rightarrow> InMemoryStorage \<times> (error + unit)" where
  "declineFriendRequest st requestId actingUserId =
     (case getFriendRequestById st requestId of
        None \<Rightarrow> (st, Inl (App FriendRequestNotFoundError))
      | Some request \<Rightarrow>
          if toUserId request \<noteq> actingUserId
            then (st, Inl (App (ForbiddenError ''Only the recipient can decline a friend request'')))
          else if status request \<noteq> Pending then (st, Inl (App FriendRequestNotFoundError))
          else (setStatus st requestId request Declined, Inr ()))"

definition removeFriend ::
  "InMemoryStorage \<Rightarrow> string \<Rightarrow> string \<Rightarrow> InMemoryStorage \<times> (error + unit)" where
  "removeFriend st u f =
     (if \<not> areFriends st u f then (st, Inl (App NotFriendsError))
      else
        (let st1 = fst (deleteFriendship st u f);
             st2 = fst (deleteFriendship st1 f u)
         in (st2, Inr ())))"

text \<open>
  A sequence of friendship operations, each with the arguments of the call and what the
  environment supplies to it.  A call that throws leaves the store as it was.
\<close>

datatype FriendOp =
    SendFriendRequest string Date string string
  | AcceptFriendRequest Date string string
  | DeclineFriendRequest string string
  | RemoveFriend string string

fun applyFriendOp :: "InMemoryStorage \<Rightarrow> FriendOp \<Rightarrow> InMemoryStorage" where
  "applyFriendOp st (SendFriendRequest newId now f t) = fst (sendFriendRequest newId now st f t)"
| "applyFriendOp st (AcceptFriendRequest now r u) = fst (acceptFriendRequest now st r u)"
| "applyFriendOp st (DeclineFriendRequest r u) = fst (declineFriendRequest st r u)"
| "applyFriendOp st (RemoveFriend u f) = fst (removeFriend st u f)"

definition runFriendOps :: "InMemoryStorage \<Rightarrow> FriendOp list \<Rightarrow> InMemoryStorage" where
  "runFriendOps st ops = foldl applyFriendOp st ops"


section \<open>Visibility (services/PostService.ts)\<close>

definition canViewPost :: "InMemoryStorage \<Rightarrow> Post \<Rightarrow> string option \<Rightarrow> bool" where
  "canViewPost st post viewerId =
     (if visibility post = Public then True
      else case viewerId of
             None \<Rightarrow> False
           | Some v \<Rightarrow> if authorId post = v then True else areFriends st (authorId post) v)"


section \<open>Strings\<close>

text \<open>
  A string is a list of 8-bit characters, so the model covers code units up to
  \<open>0xFF\<close>.  \<open>truthy\<close> is JavaScript's test of an optional string in a condition:
  \<open>undefined\<close>, \<open>null\<close> and the empty string are falsy.
\<close>

definition truthy :: "string option \<Rightarrow> bool" where
  "truthy s = (case s of None \<Rightarrow> False | Some x \<Rightarrow> x \<noteq> [])"

text \<open>The white space and line terminators that \<open>String.prototype.trim\<close> strips.\<close>

definition isWhitespace :: "char \<Rightarrow> bool" where
  "isWhitespace c = (c \<in> set [CHR 0x09, CHR 0x0A, CHR 0x0B, CHR 0x0C, CHR 0x0D, CHR 0x20, CHR 0xA0])"

definition trim :: "string \<Rightarrow> string" where
  "trim s = rev (dropWhile isWhitespace (rev (dropWhile isWhitespace s)))"

definition toLowerChar :: "char \<Rightarrow> char" where
  "toLowerChar c =
     (let n = (of_char c :: nat)
      in if (65 \<le> n \<and> n \<le> 90) \<or> (192 \<le> n \<and> n \<le> 222 \<and> n \<noteq> 215)
         then char_of (n + 32) else c)"

definition toLowerCase :: "string \<Rightarrow> string" where
  "toLowerCase s = map toLowerChar s"

text \<open>\<open>String.prototype.includes\<close> and \<open>Array.prototype.join\<close>.\<close>

fun str_includes :: "string \<Rightarrow> string \<Rightarrow> bool" where
  "str_includes [] sub = (sub = [])"
| "str_includes (c # cs) sub = (take (length sub) (c # cs) = sub \<or> str_includes cs sub)"

fun join :: "string \<Rightarrow> string list \<Rightarrow> string" where
  "join sep [] = []"
| "join sep [x] = x"
| "join sep (x # y # ys) = x @ sep @ join sep (y # ys)"


section \<open>Content validation and post update (services/PostService.ts)\<close>

definition SUPPORTED_IMAGE_FORMATS :: "string list" where
  "SUPPORTED_IMAGE_FORMATS = [''image/jpeg'', ''image/png'', ''image/gif'']"

definition SUPPORTED_VIDEO_FORMATS :: "string list" where
  "SUPPORTED_VIDEO_FORMATS = [''video/mp4'', ''video/webm'']"

definition MAX_IMAGE_SIZE :: int where
  "MAX_IMAGE_SIZE = 10 * 1024 * 1024"

definition MAX_VIDEO_SIZE :: int where
  "MAX_VIDEO_SIZE = 100 * 1024 * 1024"

record ValidationResult =
  valid :: bool
  errors :: "string list"

text \<open>
  The two helpers push onto the caller's \<open>errors\<close> array; here they take the array
  and return it extended.
\<close>

definition validateImageContent :: "PostContent \<Rightarrow> string list \<Rightarrow> string list" where
  "validateImageContent c errs =
     (if \<not> truthy (mediaUrl c) \<and> \<not> truthy (mimeType c)
        then errs @ [''Image content cannot be empty'']
      else
        (let errs1 =
               (case mimeType c of
                  None \<Rightarrow> errs
                | Some m \<Rightarrow>
                    if m \<noteq> [] \<and> m \<notin> set SUPPORTED_IMAGE_FORMATS
                      then errs @ [''Unsupported image format. Supported formats: JPEG, PNG, GIF'']
                    else errs)
         in case fileSize c of
              None \<Rightarrow> errs1
            | Some n \<Rightarrow>
                if n > MAX_IMAGE_SIZE
                  then errs1 @ [''Image file exceeds maximum size of 10MB'']
                else errs1))"

definition validateVideoContent :: "PostContent \<Rightarrow> string list \<Rightarrow> string list" where
  "validateVideoContent c errs =
     (if \<not> truthy (mediaUrl c) \<and> \<not> truthy (mimeType c)
        then errs @ [''Video content cannot be empty'']
      else
        (let errs1 =
               (case mimeType c of
                  None \<Rightarrow> errs
                | Some m \<Rightarrow>
                    if m \<noteq> [] \<and> m \<notin> set SUPPORTED_VIDEO_FORMATS
                      then errs @ [''Unsupported video format. Supported formats: MP4, WebM'']
                    else errs)
         in case fileSize c of
              None \<Rightarrow> errs1
            | Some n \<Rightarrow>
                if n > MAX_VIDEO_SIZE
                  then errs1 @ [''Video file exceeds maximum size of 100MB'']
                else errs1))"

text \<open>
  The argument is a content object, so the source's first test \<open>!content\<close> is false;
  \<open>ContentType\<close> has three values, so the \<open>default\<close> branch of the switch is not
  reached.
\<close>

definition validateContent :: "PostContent \<Rightarrow> ValidationResult" where
  "validateContent c =
     (let errs =
            (case content_type c of
               Text \<Rightarrow>
                 (case content_text c of
                    None \<Rightarrow> [''Text content cannot be empty'']
                  | Some t \<Rightarrow>
                      if t = [] \<or> length (trim t) = 0
                        then [''Text content cannot be empty'']
                      else [])
             | Image \<Rightarrow> validateImageContent c []
             | Video \<Rightarrow> validateVideoContent c [])
      in \<lparr> valid = (length errs = 0), errors = errs \<rparr>)"

text \<open>
  The error thrown for a failed validation, written out in both \<open>createPost\<close> and
  \<open>updatePost\<close>: the messages are joined and searched for three substrings in turn.
\<close>

definition validationFailure :: "ValidationResult \<Rightarrow> error" where
  "validationFailure validationResult =
     (let errorMessage = join ''; '' (errors validationResult)
      in if str_includes errorMessage ''cannot be empty'' then App EmptyContentError
         else if str_includes errorMessage ''Unsupported'' then App (InvalidFormatError errorMessage)
         else if str_includes errorMessage ''exceeds maximum size''
           then App (FileTooLargeError errorMessage)
         else App EmptyContentError)"

text \<open>
  \<open>if (updates.content) { ... }\<close>: the error thrown when the new content fails
  validation, \<open>None\<close> when there is no new content or it is valid.
\<close>

definition contentFailure :: "PostUpdate \<Rightarrow> error option" where
  "contentFailure updates =
     (case update_content updates of
        None \<Rightarrow> None
      | Some c \<Rightarrow>
          (let validationResult = validateContent c
           in if \<not> valid validationResult then Some (validationFailure validationResult)
              else None))"

text \<open>
  \<open>userId\<close> is \<open>string | null | undefined\<close>: \<open>None\<close> for the latter two.
  \<open>now\<close> is the time value of the \<open>new Date()\<close> written to \<open>updatedAt\<close>.
\<close>

definition updatePost ::
  "Date \<Rightarrow> InMemoryStorage \<Rightarrow> string \<Rightarrow> string option \<Rightarrow> PostUpdate
     \<Rightarrow> InMemoryStorage \<times> (error + Post)" where
  "updatePost now st postId uid updates =
     (if \<not> truthy uid then (st, Inl (App UnauthorizedError))
      else case getPostById st postId of
        None \<Rightarrow> (st, Inl (App PostNotFoundError))
      | Some existingPost \<Rightarrow>
          if Some (authorId existingPost) \<noteq> uid then (st, Inl (App AccessDeniedError))
          else
            (case contentFailure updates of
               Some e \<Rightarrow> (st, Inl e)
             | None \<Rightarrow>
                 (let updatedPost = existingPost\<lparr>
                        content := (case update_content updates of
                                      None \<Rightarrow> content existingPost | Some c \<Rightarrow> c),
                        visibility := (case update_visibility updates of
                                         None \<Rightarrow> visibility existingPost | Some v \<Rightarrow> v),
                        isEdited := True,
                        updatedAt := now,
                        createdAt := createdAt existingPost \<rparr>
                  in (storage_updatePost st updatedPost, Inr updatedPost))))"


section \<open>Feed (services/FeedService.ts)\<close>

text \<open>
  \<open>Array.prototype.slice(start, end)\<close> on integers: a negative index counts from the
  end, both are clamped to the array.
\<close>

definition js_slice :: "'a list \<Rightarrow> int \<Rightarrow> int \<Rightarrow> 'a list" where
  "js_slice xs start fin =
     (let len = int (length xs);
          k = (if start < 0 then max (len + start) 0 else min start len);
          final = (if fin < 0 then max (len + fin) 0 else min fin len)
      in take (nat (final - k)) (drop (nat k) xs))"

text \<open>
  \<open>Array.prototype.sort(compareFn)\<close> is a stable sort: elements that compare equal
  keep their order.  Insertion from the right end gives that order.
\<close>

fun js_insert :: "('a \<Rightarrow> 'a \<Rightarrow> int) \<Rightarrow> 'a \<Rightarrow> 'a list \<Rightarrow> 'a list" where
  "js_insert cmp x [] = [x]"
| "js_insert cmp x (y # ys) = (if cmp x y \<le> 0 then x # y # ys else y # js_insert cmp x ys)"

definition js_sort :: "('a \<Rightarrow> 'a \<Rightarrow> int) \<Rightarrow> 'a list \<Rightarrow> 'a list" where
  "js_sort cmp xs = foldr (js_insert cmp) xs []"

text \<open>The pagination comes from \<open>parseInt\<close> in the route, so both fields are integers.\<close>

definition getFeed :: "InMemoryStorage \<Rightarrow> string option \<Rightarrow> Pagination \<Rightarrow> FeedResult" where
  "getFeed st viewerId pagination =
     (let allPosts = getAllPosts st;
          visiblePosts = filter (\<lambda>post. canViewPost st post viewerId) allPosts;
          sortedPosts = js_sort (\<lambda>a b. createdAt b - createdAt a) visiblePosts;
          total = length sortedPosts;
          paginatedPosts =
            js_slice sortedPosts (offset pagination) (offset pagination + limit pagination);
          more = (offset pagination + int (length paginatedPosts) < int total)
      in \<lparr> feed_posts = paginatedPosts, hasMore = more, feed_total = total \<rparr>)"


section \<open>Authentication (services/AuthenticationService.ts)\<close>

definition createUser :: "InMemoryStorage \<Rightarrow> User \<Rightarrow> InMemoryStorage" where
  "createUser st user =
     st\<lparr> users := AList.update (user_id user) user (users st),
         usersByEmail := AList.update (toLowerCase (email user)) (user_id user) (usersByEmail st),
         usersByUsername :=
           AList.update (toLowerCase (username user)) (user_id user) (usersByUsername st) \<rparr>"

definition getUserByEmail :: "InMemoryStorage \<Rightarrow> string \<Rightarrow> User option" where
  "getUserByEmail st e =
     (case map_of (usersByEmail st) (toLowerCase e) of
        None \<Rightarrow> None
      | Some uid \<Rightarrow> if uid = [] then None else map_of (users st) uid)"

definition getUserByUsername :: "InMemoryStorage \<Rightarrow> string \<Rightarrow> User option" where
  "getUserByUsername st n =
     (case map_of (usersByUsername st) (toLowerCase n) of
        None \<Rightarrow> None
      | Some uid \<Rightarrow> if uid = [] then None else map_of (users st) uid)"

text \<open>
  \<open>hashPassword\<close> draws a random salt; the model takes the function that this call
  computes as an argument, with the new id and the clock reading.
\<close>

definition register ::
  "(string \<Rightarrow> string) \<Rightarrow> string \<Rightarrow> Date \<Rightarrow> InMemoryStorage \<Rightarrow> string \<Rightarrow> string \<Rightarrow> string
     \<Rightarrow> InMemoryStorage \<times> (error + User)" where
  "register hashPassword newId now st e n password =
     (if e = [] \<or> n = [] \<or> password = []
        then (st, Inl (PlainError ''Email, username, and password are required''))
      else if getUserByEmail st e \<noteq> None then (st, Inl (App DuplicateEmailError))
      else if getUserByUsername st n \<noteq> None then (st, Inl (App DuplicateUsernameError))
      else
        (let user = \<lparr> user_id = newId, email = trim (toLowerCase e), username = trim n,
                      passwordHash = hashPassword password, user_createdAt = now \<rparr>
         in (createUser st user, Inr user)))"

text \<open>\<open>now\<close> is the time value of the \<open>new Date()\<close> compared with \<open>expiresAt\<close>.\<close>

definition validateSession ::
  "Date \<Rightarrow> InMemoryStorage \<Rightarrow> string \<Rightarrow> InMemoryStorage \<times> User option" where
  "validateSession now st sessionId =
     (case getSessionById st sessionId of
        None \<Rightarrow> (st, None)
      | Some session \<Rightarrow>
          if now > expiresAt session then (fst (deleteSession st sessionId), None)
          else (st, getUserById st (session_userId session)))"

definition validateSessionByToken ::
  "Date \<Rightarrow> InMemoryStorage \<Rightarrow> string \<Rightarrow> InMemoryStorage \<times> User option" where
  "validateSessionByToken now st t =
     (case getSessionByToken st t of
        None \<Rightarrow> (st, None)
      | Some session \<Rightarrow>
          if now > expiresAt session then (fst (deleteSession st (session_id session)), None)
          else (st, getUserById st (session_userId session)))"


section \<open>Serialization (services/SerializationService.ts)\<close>

text \<open>
  \<open>JSON.stringify\<close> and \<open>JSON.parse\<close> are the platform's; the model works on the
  document they print and read.  An object is the list of its properties in order.
\<close>

datatype json =
    JNull
  | JBool bool
  | JNumber int
  | JString string
  | JArray "json list"
  | JObject "(string \<times> json) list"

text \<open>A property read \<open>v.k\<close> on a value that is not \<open>null\<close>; \<open>None\<close> is \<open>undefined\<close>.\<close>

fun getProp :: "json \<Rightarrow> string \<Rightarrow> json option" where
  "getProp (JObject kvs) k = map_of kvs k"
| "getProp j k = None"

definition contentTypeName :: "ContentType \<Rightarrow> string" where
  "contentTypeName t = (case t of Text \<Rightarrow> ''text'' | Image \<Rightarrow> ''image'' | Video \<Rightarrow> ''video'')"

definition visibilityName :: "Visibility \<Rightarrow> string" where
  "visibilityName v = (case v of FriendsOnly \<Rightarrow> ''friends_only'' | Public \<Rightarrow> ''public'')"

text \<open>\<open>...(x !== undefined && { k: x })\<close>: the property is there when \<open>x\<close> is.\<close>

definition spreadField :: "string \<Rightarrow> string option \<Rightarrow> (string \<times> json) list" where
  "spreadField k v = (case v of None \<Rightarrow> [] | Some s \<Rightarrow> [(k, JString s)])"

text \<open>
  \<open>toISOString\<close> is \<open>Date.prototype.toISOString\<close>, an argument of the model.  The
  content object is built from \<open>type\<close>, \<open>text\<close> and \<open>mediaUrl\<close> only.
\<close>

definition serializePost :: "(Date \<Rightarrow> string) \<Rightarrow> Post \<Rightarrow> json" where
  "serializePost toISOString post =
     JObject
       [(''id'', JString (post_id post)),
        (''authorId'', JString (authorId post)),
        (''content'',
           JObject ([(''type'', JString (contentTypeName (content_type (content post))))]
                    @ spreadField ''text'' (content_text (content post))
                    @ spreadField ''mediaUrl'' (mediaUrl (content post)))),
        (''visibility'', JString (visibilityName (visibility post))),
        (''createdAt'', JString (toISOString (createdAt post))),
        (''updatedAt'', JString (toISOString (updatedAt post))),
        (''isEdited'', JBool (isEdited post))]"

text \<open>\<open>!v || typeof v !== 'string'\<close> fails exactly on a string that is not empty.\<close>

definition nonEmptyString :: "json option \<Rightarrow> string option" where
  "nonEmptyString v = (case v of Some (JString s) \<Rightarrow> if s = [] then None else Some s | _ \<Rightarrow> None)"

text \<open>\<open>!v || typeof v !== 'object'\<close> fails on objects and arrays (\<open>null\<close> is falsy).\<close>

definition asObject :: "json option \<Rightarrow> json option" where
  "asObject v =
     (case v of
        Some (JObject kvs) \<Rightarrow> Some (JObject kvs)
      | Some (JArray xs) \<Rightarrow> Some (JArray xs)
      | _ \<Rightarrow> None)"

text \<open>\<open>isValidContentType\<close> and \<open>isValidVisibility\<close>, with the value they accept.\<close>

definition parseContentType :: "json option \<Rightarrow> ContentType option" where
  "parseContentType v =
     (case v of
        Some (JString s) \<Rightarrow>
          if s = ''text'' then Some Text
          else if s = ''image'' then Some Image
          else if s = ''video'' then Some Video
          else None
      | _ \<Rightarrow> None)"

definition parseVisibility :: "json option \<Rightarrow> Visibility option" where
  "parseVisibility v =
     (case v of
        Some (JString s) \<Rightarrow>
          if s = ''friends_only'' then Some FriendsOnly
          else if s = ''public'' then Some Public
          else None
      | _ \<Rightarrow> None)"

text \<open>
  \<open>text\<close> and \<open>mediaUrl\<close> are copied when they are not \<open>undefined\<close>, whatever
  their type.  \<open>Some None\<close> is an absent property, \<open>Some (Some s)\<close> a string, and
  \<open>None\<close> a value of another type, which the record \<open>PostContent\<close> cannot hold.
\<close>

definition optionalString :: "json option \<Rightarrow> (string option) option" where
  "optionalString v =
     (case v of None \<Rightarrow> Some None | Some (JString s) \<Rightarrow> Some (Some s) | _ \<Rightarrow> None)"

text \<open>
  \<open>parseDate\<close> is the \<open>Date\<close> constructor on a string, an argument of the model:
  \<open>None\<close> when the time value is \<open>NaN\<close>.  The checks run in the source's order.
\<close>

definition deserializePost :: "(string \<Rightarrow> Date option) \<Rightarrow> json \<Rightarrow> error + Post" where
  "deserializePost parseDate parsed =
     (if parsed = JNull then Inl TypeError
      else
     (case nonEmptyString (getProp parsed ''id'') of
        None \<Rightarrow> Inl (PlainError ''Invalid post: missing or invalid id'')
      | Some pid \<Rightarrow>
     (case nonEmptyString (getProp parsed ''authorId'') of
        None \<Rightarrow> Inl (PlainError ''Invalid post: missing or invalid authorId'')
      | Some aid \<Rightarrow>
     (case asObject (getProp parsed ''content'') of
        None \<Rightarrow> Inl (PlainError ''Invalid post: missing or invalid content'')
      | Some parsedContent \<Rightarrow>
     (case parseContentType (getProp parsedContent ''type'') of
        None \<Rightarrow> Inl (PlainError ''Invalid post: invalid content type'')
      | Some ty \<Rightarrow>
     (case parseVisibility (getProp parsed ''visibility'') of
        None \<Rightarrow> Inl (PlainError ''Invalid post: invalid visibility'')
      | Some vis \<Rightarrow>
     (case nonEmptyString (getProp parsed ''createdAt'') of
        None \<Rightarrow> Inl (PlainError ''Invalid post: missing or invalid createdAt'')
      | Some cs \<Rightarrow>
     (case nonEmptyString (getProp parsed ''updatedAt'') of
        None \<Rightarrow> Inl (PlainError ''Invalid post: missing or invalid updatedAt'')
      | Some us \<Rightarrow>
     (case getProp parsed ''isEdited'' of
        Some (JBool edited) \<Rightarrow>
          (case parseDate cs of
             None \<Rightarrow> Inl (PlainError ''Invalid post: createdAt is not a valid date'')
           | Some created \<Rightarrow>
          (case parseDate us of
             None \<Rightarrow> Inl (PlainError ''Invalid post: updatedAt is not a valid date'')
           | Some updated \<Rightarrow>
          (case (optionalString (getProp parsedContent ''text''),
                 optionalString (getProp parsedContent ''mediaUrl'')) of
             (Some txt, Some url) \<Rightarrow>
               Inr \<lparr> post_id = pid, authorId = aid,
                     content = \<lparr> content_type = ty, content_text = txt, mediaUrl = url,
                                 mimeType = None, fileSize = None \<rparr>,
                     visibility = vis, createdAt = created, updatedAt = updated,
                     isEdited = edited \<rparr>
           | _ \<Rightarrow> Inl UntypedResult)))
      | _ \<Rightarrow> Inl (PlainError ''Invalid post: missing or invalid isEdited''))))))))))"


section \<open>The platform's date text, for concrete dates\<close>

text \<open>
  \<open>isoString\<close> is the text \<open>YYYY-MM-DDTHH:mm:ss.sssZ\<close> that
  \<open>Date.prototype.toISOString\<close> gives for a time value in the years 0 to 9999, and
  \<open>isoParse\<close> reads that form back (the \<open>Date\<close> constructor accepts more forms; the
  examples below need this one only).  Days are counted in the proleptic Gregorian
  calendar.
\<close>

definition digitChar :: "int \<Rightarrow> char" where
  "digitChar d = char_of (48 + d)"

fun pad :: "nat \<Rightarrow> int \<Rightarrow> string" where
  "pad 0 v = []"
| "pad (Suc k) v = pad k (v div 10) @ [digitChar (v mod 10)]"

definition civilFromDays :: "int \<Rightarrow> int \<times> int \<times> int" where
  "civilFromDays z =
     (let z1 = z + 719468;
          era = z1 div 146097;
          doe = z1 mod 146097;
          yoe = (doe - doe div 1460 + doe div 36524 - doe div 146096) div 365;
          y = yoe + era * 400;
          doy = doe - (365 * yoe + yoe div 4 - yoe div 100);
          mp = (5 * doy + 2) div 153;
          d = doy - (153 * mp + 2) div 5 + 1;
          m = (if mp < 10 then mp + 3 else mp - 9)
      in (if m \<le> 2 then y + 1 else y, m, d))"

definition daysFromCivil :: "int \<Rightarrow> int \<Rightarrow> int \<Rightarrow> int" where
  "daysFromCivil y m d =
     (let y1 = (if m \<le> 2 then y - 1 else y);
          era = y1 div 400;
          yoe = y1 mod 400;
          doy = (153 * (if m > 2 then m - 3 else m + 9) + 2) div 5 + d - 1;
          doe = yoe * 365 + yoe div 4 - yoe div 100 + doy
      in era * 146097 + doe - 719468)"

definition isoString :: "Date \<Rightarrow> string" where
  "isoString t =
     (let (y, m, d) = civilFromDays (t div 86400000);
          ms = t mod 86400000
      in pad 4 y @ ''-'' @ pad 2 m @ ''-'' @ pad 2 d @ ''T'' @
         pad 2 (ms div 3600000) @ '':'' @ pad 2 (ms div 60000 mod 60) @ '':'' @
         pad 2 (ms div 1000 mod 60) @ ''.'' @ pad 3 (ms mod 1000) @ ''Z'')"

fun number :: "string \<Rightarrow> int option" where
  "number [] = Some 0"
| "number (c # cs) =
     (let n = (of_char c :: int)
      in if 48 \<le> n \<and> n \<le> 57
         then map_option (\<lambda>r. (n - 48) * 10 ^ length cs + r) (number cs)
         else None)"

definition digits :: "string \<Rightarrow> nat \<Rightarrow> nat \<Rightarrow> int option" where
  "digits s i n = number (take n (drop i s))"

definition isoParse :: "string \<Rightarrow> Date option" where
  "isoParse s =
     (if length s = 24 \<and> s ! 4 = CHR ''-'' \<and> s ! 7 = CHR ''-'' \<and> s ! 10 = CHR ''T'' \<and>
         s ! 13 = CHR '':'' \<and> s ! 16 = CHR '':'' \<and> s ! 19 = CHR ''.'' \<and> s ! 23 = CHR ''Z''
      then
        (case (digits s 0 4, digits s 5 2, digits s 8 2, digits s 11 2, digits s 14 2,
               digits s 17 2, digits s 20 3) of
           (Some y, Some m, Some d, Some h, Some mi, Some sec, Some ms) \<Rightarrow>
             if 1 \<le> m \<and> m \<le> 12 \<and> 1 \<le> d \<and> civilFromDays (daysFromCivil y m d) = (y, m, d) \<and>
                h \<le> 23 \<and> mi \<le> 59 \<and> sec \<le> 59
             then Some (daysFromCivil y m d * 86400000 + h * 3600000 + mi * 60000
                        + sec * 1000 + ms)
             else None
         | _ \<Rightarrow> None)
      else None)"


section \<open>Example stores\<close>

definition alice :: User where
  "alice = \<lparr> user_id = ''u1'', email = ''alice@example.com'', username = ''alice'',
             passwordHash = ''5a17:c0de'', user_createdAt = 1000 \<rparr>"

definition bob :: User where
  "bob = \<lparr> user_id = ''u2'', email = ''bob@example.com'', username = ''bob'',
           passwordHash = ''5a17:beef'', user_createdAt = 2000 \<rparr>"

definition twoUsers :: InMemoryStorage where
  "twoUsers = createUser (createUser emptyStorage alice) bob"

text \<open>Alice asks Bob; Bob accepts in one store and declines in the other.\<close>

definition acceptedStore :: InMemoryStorage where
  "acceptedStore = runFriendOps twoUsers
     [SendFriendRequest ''r1'' 3000 ''u1'' ''u2'', AcceptFriendRequest 4000 ''r1'' ''u2'']"

definition declinedStore :: InMemoryStorage where
  "declinedStore = runFriendOps twoUsers
     [SendFriendRequest ''r1'' 3000 ''u1'' ''u2'', DeclineFriendRequest ''r1'' ''u2'']"

definition acceptedRequest :: FriendRequest where
  "acceptedRequest = \<lparr> request_id = ''r1'', fromUserId = ''u1'', toUserId = ''u2'',
                        status = Accepted, request_createdAt = 3000 \<rparr>"

definition secondRequest :: FriendRequest where
  "secondRequest = \<lparr> request_id = ''r2'', fromUserId = ''u1'', toUserId = ''u2'',
                      status = Pending, request_createdAt = 6000 \<rparr>"

definition textContent :: "string \<Rightarrow> PostContent" where
  "textContent t = \<lparr> content_type = Text, content_text = Some t, mediaUrl = None,
                      mimeType = None, fileSize = None \<rparr>"

definition post1 :: Post where
  "post1 = \<lparr> post_id = ''p1'', authorId = ''u1'', content = textContent ''one'',
             visibility = Public, createdAt = 1, updatedAt = 1, isEdited = False \<rparr>"

definition post2 :: Post where
  "post2 = \<lparr> post_id = ''p2'', authorId = ''u2'', content = textContent ''two'',
             visibility = Public, createdAt = 2, updatedAt = 2, isEdited = False \<rparr>"

definition post3 :: Post where
  "post3 = \<lparr> post_id = ''p3'', authorId = ''u1'', content = textContent ''three'',
             visibility = Public, createdAt = 3, updatedAt = 3, isEdited = False \<rparr>"

definition post4 :: Post where
  "post4 = \<lparr> post_id = ''p4'', authorId = ''u1'', content = textContent ''four'',
             visibility = FriendsOnly, createdAt = 4, updatedAt = 4, isEdited = False \<rparr>"

definition feedStore :: InMemoryStorage where
  "feedStore = foldl storage_createPost acceptedStore [post1, post2, post3, post4]"

definition post1Edited :: Post where
  "post1Edited = \<lparr> post_id = ''p1'', authorId = ''u1'', content = textContent ''one'',
                   visibility = FriendsOnly, createdAt = 1, updatedAt = 10, isEdited = True \<rparr>"

text \<open>The same edit made when the clock reads 0, before the post's last write at 1.\<close>

definition post1SetBack :: Post where
  "post1SetBack = \<lparr> post_id = ''p1'', authorId = ''u1'', content = textContent ''one'',
                    visibility = FriendsOnly, createdAt = 1, updatedAt = 0, isEdited = True \<rparr>"

definition onlyVisibility :: PostUpdate where
  "onlyVisibility = \<lparr> update_content = None, update_visibility = Some FriendsOnly \<rparr>"

text \<open>A session of a user id that no stored user has.\<close>

definition orphanSession :: Session where
  "orphanSession = \<lparr> session_id = ''s1'', session_userId = ''u9'', token = ''t1'',
                      expiresAt = 100 \<rparr>"

definition sessionStore :: InMemoryStorage where
  "sessionStore = createSession twoUsers orphanSession"

definition exampleHash :: "string \<Rightarrow> string" where
  "exampleHash password = ''5a17:'' @ password"

text \<open>An image post as \<open>createPost\<close> stores it when the content names its file.\<close>

definition imagePost :: Post where
  "imagePost = \<lparr> post_id = ''p5'', authorId = ''u1'',
                 content = \<lparr> content_type = Image, content_text = None,
                             mediaUrl = Some ''https://cdn.example/a.png'',
                             mimeType = Some ''image/png'', fileSize = Some 2048 \<rparr>,
                 visibility = Public, createdAt = 1700000000000, updatedAt = 1700000000000,
                 isEdited = False \<rparr>"

definition textPost :: Post where
  "textPost = \<lparr> post_id = ''p6'', authorId = ''u2'', content = textContent ''hello'',
                visibility = FriendsOnly, createdAt = 1700000000000,
                updatedAt = 1709251199999, isEdited = True \<rparr>"


section \<open>Predicates of the statements\<close>

text \<open>The friend relation reads the same in both directions.\<close>

definition friendsSymmetric :: "InMemoryStorage \<Rightarrow> bool" where
  "friendsSymmetric st = (\<forall>a b. areFriends st a b = areFriends st b a)"


text \<open>Some stored request from \<open>f\<close> to \<open>t\<close> is pending.\<close>

definition pendingRequestExists :: "InMemoryStorage \<Rightarrow> string \<Rightarrow> string \<Rightarrow> bool" where
  "pendingRequestExists st f t =
     list_ex (\<lambda>r. fromUserId r = f \<and> toUserId r = t \<and> status r = Pending)
       (map snd (friendRequests st))"


section \<open>Visibility\<close>

text \<open>
  Claim C1.  A public post is visible to every viewer, the unauthenticated one included.
  A friends-only post is hidden from the unauthenticated viewer, visible to its author,
  and visible to any other viewer exactly when \<open>areFriends\<close> holds of the author and
  the viewer.
\<close>

theorem canViewPost_visibility:
  "(visibility post = Public \<longrightarrow> canViewPost st post viewerId) \<and>
   (visibility post = FriendsOnly \<longrightarrow>
      \<not> canViewPost st post None \<and>
      canViewPost st post (Some (authorId post)) \<and>
      (v \<noteq> authorId post \<longrightarrow> canViewPost st post (Some v) = areFriends st (authorId post) v))"
  by (cases "visibility post") (auto simp: canViewPost_def)

text \<open>
  In the store where Alice and Bob are friends: Alice's public post is visible without
  a viewer, her friends-only post to herself and to Bob, and not to a stranger.
\<close>

theorem canViewPost_visibility_witness:
  "visibility post1 = Public \<and> canViewPost acceptedStore post1 None \<and>
   visibility post4 = FriendsOnly \<and> \<not> canViewPost acceptedStore post4 None \<and>
   canViewPost acceptedStore post4 (Some ''u1'') \<and>
   canViewPost acceptedStore post4 (Some ''u2'') \<and>
   \<not> canViewPost acceptedStore post4 (Some ''u3'')"
proof -
  have a: "authorId post4 = ''u1''" and f: "visibility post4 = FriendsOnly"
    and p: "visibility post1 = Public"
    by (simp_all add: post4_def post1_def)
  have friends: "areFriends acceptedStore ''u1'' ''u2''" by code_simp
  have strangers: "\<not> areFriends acceptedStore ''u1'' ''u3''" by code_simp
  from canViewPost_visibility [of post1 acceptedStore None "''u2''"]
       canViewPost_visibility [of post4 acceptedStore None "''u2''"]
       canViewPost_visibility [of post4 acceptedStore None "''u3''"]
       a f p friends strangers
  show ?thesis by simp
qed


section \<open>Friendship\<close>

lemma map_of_index_add:
  "map_of (index_add k x m) k' =
     (if k' = k then Some (set_add x (case map_of m k of None \<Rightarrow> [] | Some s \<Rightarrow> s))
      else map_of m k')"
  by (simp add: index_add_def update_conv' split: option.splits)

lemma map_of_index_delete:
  "map_of (index_delete k x m) k' =
     (if k' = k then map_option (set_delete x) (map_of m k) else map_of m k')"
  by (simp add: index_delete_def update_conv' split: option.splits)

lemma areFriends_createFriendship:
  "areFriends (createFriendship st fr) x y \<longleftrightarrow>
     areFriends st x y \<or> (x = userId fr \<and> y = friendId fr)"
  by (auto simp: areFriends_def createFriendship_def map_of_index_add set_add_def
           split: option.splits)

lemma areFriends_deleteFriendship:
  "areFriends (fst (deleteFriendship st u f)) x y \<longleftrightarrow> areFriends st x y \<and> \<not> (x = u \<and> y = f)"
  by (auto simp: areFriends_def deleteFriendship_def map_of_index_delete set_delete_def
           split: option.splits)

lemma areFriends_setStatus: "areFriends (setStatus st r req s) x y = areFriends st x y"
  by (simp add: areFriends_def setStatus_def updateFriendRequest_def Let_def)

lemma areFriends_createFriendRequest:
  "areFriends (createFriendRequest st r) x y = areFriends st x y"
  by (simp add: areFriends_def createFriendRequest_def)

lemma symmetric_send:
  "friendsSymmetric st \<Longrightarrow> friendsSymmetric (fst (sendFriendRequest i n st f t))"
  by (simp add: friendsSymmetric_def sendFriendRequest_def Let_def areFriends_createFriendRequest)

lemma symmetric_accept:
  "friendsSymmetric st \<Longrightarrow> friendsSymmetric (fst (acceptFriendRequest n st r u))"
  unfolding friendsSymmetric_def acceptFriendRequest_def
  by (auto simp: Let_def areFriends_createFriendship areFriends_setStatus split: option.splits)

lemma symmetric_decline:
  "friendsSymmetric st \<Longrightarrow> friendsSymmetric (fst (declineFriendRequest st r u))"
  unfolding friendsSymmetric_def declineFriendRequest_def
  by (auto simp: Let_def areFriends_setStatus split: option.splits)

lemma symmetric_remove:
  "friendsSymmetric st \<Longrightarrow> friendsSymmetric (fst (removeFriend st u f))"
  unfolding friendsSymmetric_def removeFriend_def
  by (auto simp: Let_def areFriends_deleteFriendship)

lemma symmetric_apply: "friendsSymmetric st \<Longrightarrow> friendsSymmetric (applyFriendOp st op)"
  by (cases op) (simp_all add: symmetric_send symmetric_accept symmetric_decline symmetric_remove)

lemma symmetric_run: "friendsSymmetric st \<Longrightarrow> friendsSymmetric (runFriendOps st ops)"
  unfolding runFriendOps_def
  by (induction ops arbitrary: st) (simp_all add: symmetric_apply)

lemma symmetric_no_friends: "friendsByUser st = [] \<Longrightarrow> friendsSymmetric st"
  by (simp add: friendsSymmetric_def areFriends_def)

text \<open>
  Claim C2.  Start from any store without friendships and run any sequence of
  \<open>sendFriendRequest\<close>, \<open>acceptFriendRequest\<close>, \<open>declineFriendRequest\<close> and
  \<open>removeFriend\<close> calls, with any arguments, failed calls included.  In the store
  reached, \<open>areFriends a b\<close> and \<open>areFriends b a\<close> agree for all \<open>a\<close> and \<open>b\<close>.
\<close>

theorem friendship_symmetric:
  "friendsByUser st0 = [] \<Longrightarrow>
   areFriends (runFriendOps st0 ops) a b = areFriends (runFriendOps st0 ops) b a"
  using symmetric_run [OF symmetric_no_friends, of st0 ops]
  by (simp add: friendsSymmetric_def)

text \<open>After Bob accepts Alice's request each is a friend of the other.\<close>

theorem friendship_symmetric_witness:
  "friendsByUser twoUsers = [] \<and>
   areFriends (runFriendOps twoUsers
      [SendFriendRequest ''r1'' 3000 ''u1'' ''u2'', AcceptFriendRequest 4000 ''r1'' ''u2''])
      ''u1'' ''u2'' \<and>
   areFriends (runFriendOps twoUsers
      [SendFriendRequest ''r1'' 3000 ''u1'' ''u2'', AcceptFriendRequest 4000 ''r1'' ''u2''])
      ''u2'' ''u1''"
proof -
  have e: "friendsByUser twoUsers = []" by code_simp
  have f: "areFriends (runFriendOps twoUsers
      [SendFriendRequest ''r1'' 3000 ''u1'' ''u2'', AcceptFriendRequest 4000 ''r1'' ''u2''])
      ''u1'' ''u2''"
    by code_simp
  from friendship_symmetric [OF e,
      of "[SendFriendRequest ''r1'' 3000 ''u1'' ''u2'', AcceptFriendRequest 4000 ''r1'' ''u2'']"
         "''u1''" "''u2''"] e f
  show ?thesis by simp
qed

text \<open>
  Claim C5, as the code has it.  \<open>acceptFriendRequest\<close> looks at the recipient before
  it looks at the status.  An unknown id fails with \<open>FriendRequestNotFoundError\<close>.
  A stored request whose \<open>toUserId\<close> is not the acting user fails with
  \<open>ForbiddenError\<close>, whatever its status.  A stored request that is not pending fails
  with \<open>FriendRequestNotFoundError\<close> when the acting user is its recipient.  The store
  is unchanged in all three cases.
\<close>

theorem acceptFriendRequest_errors:
  "(getFriendRequestById st requestId = None \<longrightarrow>
      acceptFriendRequest now st requestId u = (st, Inl (App FriendRequestNotFoundError))) \<and>
   (getFriendRequestById st requestId = Some r \<and> toUserId r \<noteq> u \<longrightarrow>
      acceptFriendRequest now st requestId u =
        (st, Inl (App (ForbiddenError ''Only the recipient can accept a friend request'')))) \<and>
   (getFriendRequestById st requestId = Some r \<and> toUserId r = u \<and> status r \<noteq> Pending \<longrightarrow>
      acceptFriendRequest now st requestId u = (st, Inl (App FriendRequestNotFoundError)))"
  by (auto simp: acceptFriendRequest_def)

theorem acceptFriendRequest_errors_witness:
  "getFriendRequestById acceptedStore ''r0'' = None \<and>
   acceptFriendRequest 5000 acceptedStore ''r0'' ''u2'' =
     (acceptedStore, Inl (App FriendRequestNotFoundError)) \<and>
   getFriendRequestById acceptedStore ''r1'' = Some acceptedRequest \<and>
   toUserId acceptedRequest \<noteq> ''u1'' \<and>
   acceptFriendRequest 5000 acceptedStore ''r1'' ''u1'' =
     (acceptedStore, Inl (App (ForbiddenError ''Only the recipient can accept a friend request''))) \<and>
   toUserId acceptedRequest = ''u2'' \<and> status acceptedRequest \<noteq> Pending \<and>
   acceptFriendRequest 5000 acceptedStore ''r1'' ''u2'' =
     (acceptedStore, Inl (App FriendRequestNotFoundError))"
proof -
  have n: "getFriendRequestById acceptedStore ''r0'' = None" by code_simp
  have s: "getFriendRequestById acceptedStore ''r1'' = Some acceptedRequest" by code_simp
  have r: "toUserId acceptedRequest = ''u2''" "status acceptedRequest = Accepted"
    by (simp_all add: acceptedRequest_def)
  from acceptFriendRequest_errors [of acceptedStore "''r0''" 5000 "''u2''" acceptedRequest]
       acceptFriendRequest_errors [of acceptedStore "''r1''" 5000 "''u1''" acceptedRequest]
       acceptFriendRequest_errors [of acceptedStore "''r1''" 5000 "''u2''" acceptedRequest]
       n s r
  show ?thesis by simp
qed

text \<open>
  Claim C5 as stated fails: request \<open>r1\<close> from Alice to Bob has been accepted, and when
  Alice, who is not its recipient, accepts it again the error is \<open>ForbiddenError\<close>,
  not \<open>FriendRequestNotFoundError\<close>.
\<close>

theorem acceptFriendRequest_not_pending_counterexample:
  "map_option status (getFriendRequestById acceptedStore ''r1'') = Some Accepted \<and>
   snd (acceptFriendRequest 5000 acceptedStore ''r1'' ''u1'') =
     Inl (App (ForbiddenError ''Only the recipient can accept a friend request'')) \<and>
   snd (acceptFriendRequest 5000 acceptedStore ''r1'' ''u1'') \<noteq>
     Inl (App FriendRequestNotFoundError)"
  by code_simp

lemma getFriendRequestBetweenUsers_None:
  "getFriendRequestBetweenUsers st f t = None \<longleftrightarrow> \<not> pendingRequestExists st f t"
  by (simp add: getFriendRequestBetweenUsers_def pendingRequestExists_def find_None_iff
        list_ex_iff)

text \<open>
  Claim C6.  For two distinct stored users, \<open>sendFriendRequest\<close> fails with
  \<open>DuplicateFriendRequestError\<close> exactly when they are friends already or a pending
  request exists from the sender to the recipient or from the recipient to the sender.
  Otherwise it stores and returns a new pending request; requests that were accepted or
  declined do not count.
\<close>

theorem sendFriendRequest_duplicate:
  assumes "fromU \<noteq> toU" and "getUserById st fromU \<noteq> None" and "getUserById st toU \<noteq> None"
  shows "(snd (sendFriendRequest newId now st fromU toU) = Inl (App DuplicateFriendRequestError)
            \<longleftrightarrow> areFriends st fromU toU \<or> pendingRequestExists st fromU toU
                \<or> pendingRequestExists st toU fromU) \<and>
         (\<not> (areFriends st fromU toU \<or> pendingRequestExists st fromU toU
                \<or> pendingRequestExists st toU fromU) \<longrightarrow>
            sendFriendRequest newId now st fromU toU =
              (createFriendRequest st \<lparr> request_id = newId, fromUserId = fromU, toUserId = toU,
                                        status = Pending, request_createdAt = now \<rparr>,
               Inr \<lparr> request_id = newId, fromUserId = fromU, toUserId = toU,
                     status = Pending, request_createdAt = now \<rparr>))"
  using assms
  by (auto simp: sendFriendRequest_def Let_def getFriendRequestBetweenUsers_None)

text \<open>
  After Bob declined, Alice can ask again; after Bob accepted, her request is a
  duplicate; and while her request is pending, Bob's request to her is a duplicate too.
\<close>

theorem sendFriendRequest_duplicate_witness:
  "''u1'' \<noteq> ''u2'' \<and> getUserById declinedStore ''u1'' \<noteq> None \<and>
   getUserById declinedStore ''u2'' \<noteq> None \<and>
   snd (sendFriendRequest ''r2'' 6000 declinedStore ''u1'' ''u2'') = Inr secondRequest \<and>
   snd (sendFriendRequest ''r2'' 6000 acceptedStore ''u1'' ''u2'') =
     Inl (App DuplicateFriendRequestError) \<and>
   snd (sendFriendRequest ''r3'' 7000
          (fst (sendFriendRequest ''r2'' 6000 declinedStore ''u1'' ''u2'')) ''u2'' ''u1'') =
     Inl (App DuplicateFriendRequestError)"
proof -
  have d: "(''u1''::string) \<noteq> ''u2''" "(''u2''::string) \<noteq> ''u1''" by simp_all
  have u: "getUserById declinedStore ''u1'' \<noteq> None" "getUserById declinedStore ''u2'' \<noteq> None"
    "getUserById acceptedStore ''u1'' \<noteq> None" "getUserById acceptedStore ''u2'' \<noteq> None"
    "getUserById (fst (sendFriendRequest ''r2'' 6000 declinedStore ''u1'' ''u2'')) ''u1'' \<noteq> None"
    "getUserById (fst (sendFriendRequest ''r2'' 6000 declinedStore ''u1'' ''u2'')) ''u2'' \<noteq> None"
    by code_simp+
  have c: "\<not> areFriends declinedStore ''u1'' ''u2''"
    "\<not> pendingRequestExists declinedStore ''u1'' ''u2''"
    "\<not> pendingRequestExists declinedStore ''u2'' ''u1''"
    "areFriends acceptedStore ''u1'' ''u2''"
    "pendingRequestExists (fst (sendFriendRequest ''r2'' 6000 declinedStore ''u1'' ''u2''))
       ''u1'' ''u2''"
    by code_simp+
  from sendFriendRequest_duplicate [OF d(1) u(1) u(2), of "''r2''" 6000]
       sendFriendRequest_duplicate [OF d(1) u(3) u(4), of "''r2''" 6000]
       sendFriendRequest_duplicate [OF d(2) u(6) u(5), of "''r3''" 7000]
       d u c
  show ?thesis by (simp add: secondRequest_def)
qed

section \<open>Feed\<close>

lemma mset_js_insert: "mset (js_insert cmp x ys) = add_mset x (mset ys)"
  by (induction ys) simp_all

lemma mset_js_sort: "mset (js_sort cmp xs) = mset xs"
  unfolding js_sort_def by (induction xs) (simp_all add: mset_js_insert)

lemma length_js_sort: "length (js_sort cmp xs) = length xs"
  using mset_js_sort [of cmp xs] by (metis size_mset)







lemma js_slice_same: "js_slice xs off off = []"
  by (simp add: js_slice_def Let_def)




text \<open>The page is the source's \<open>slice\<close> call, for every pagination.\<close>

lemma getFeed_posts_slice:
  "feed_posts (getFeed st viewerId \<lparr> limit = lim, offset = off \<rparr>) =
     js_slice (js_sort (\<lambda>a b. createdAt b - createdAt a)
                 (filter (\<lambda>post. canViewPost st post viewerId) (getAllPosts st)))
       off (off + lim)"
  by (simp add: getFeed_def Let_def)




text \<open>
  Claim C4, as the code has it.  With \<open>limit = 0\<close> the page is empty, \<open>total\<close> is
  the number of posts visible to the viewer, and \<open>hasMore\<close> is \<open>offset < total\<close>:
  true at every offset below the number of visible posts, so at offset 0 whenever a
  visible post exists, and false from \<open>offset = total\<close> on.
\<close>

theorem getFeed_limit_zero:
  "let visible = filter (\<lambda>post. canViewPost st post viewerId) (getAllPosts st);
       r = getFeed st viewerId \<lparr> limit = 0, offset = off \<rparr>
   in feed_posts r = [] \<and> feed_total r = length visible \<and>
      hasMore r = (off < int (length visible))"
  by (simp add: Let_def getFeed_def length_js_sort js_slice_same)

text \<open>
  Claim C4 as stated fails: three posts are visible without a viewer, and at offset 3
  with limit 0 \<open>hasMore\<close> is false.
\<close>

theorem getFeed_limit_zero_counterexample:
  "feed_total (getFeed feedStore None \<lparr> limit = 0, offset = 3 \<rparr>) = 3 \<and>
   canViewPost feedStore post1 None \<and> post1 \<in> set (getAllPosts feedStore) \<and>
   hasMore (getFeed feedStore None \<lparr> limit = 0, offset = 3 \<rparr>) = False"
  by code_simp


section \<open>Post update\<close>

text \<open>
  Claim C9, as the code has it.  When \<open>updatePost\<close> succeeds on the stored post
  \<open>old\<close>, the caller is its author, and the post returned, which is also the post
  now stored under the id, has the \<open>id\<close>, \<open>authorId\<close> and \<open>createdAt\<close> of
  \<open>old\<close>, has \<open>isEdited\<close> set, and has the clock reading \<open>now\<close> of the call as
  \<open>updatedAt\<close>, whatever the prior value was.  A field absent from \<open>updates\<close>
  keeps its value; a field present is taken.
\<close>

theorem updatePost_frame:
  assumes "updatePost now st postId uid updates = (st', Inr p')"
    and "getPostById st postId = Some old"
  shows "post_id p' = post_id old \<and> authorId p' = authorId old \<and>
         createdAt p' = createdAt old \<and> isEdited p' \<and>
         updatedAt p' = now \<and>
         (update_content updates = None \<longrightarrow> content p' = content old) \<and>
         (update_visibility updates = None \<longrightarrow> visibility p' = visibility old) \<and>
         (\<forall>c. update_content updates = Some c \<longrightarrow> content p' = c) \<and>
         (\<forall>v. update_visibility updates = Some v \<longrightarrow> visibility p' = v) \<and>
         getPostById st' (post_id old) = Some p' \<and>
         uid = Some (authorId old)"
  using assms
  by (auto simp: updatePost_def Let_def getPostById_def storage_updatePost_def update_conv'
           split: if_splits option.splits)

text \<open>Alice changes the visibility of her first post at clock reading 10.\<close>

theorem updatePost_frame_witness:
  "updatePost 10 feedStore ''p1'' (Some ''u1'') onlyVisibility =
     (storage_updatePost feedStore post1Edited, Inr post1Edited) \<and>
   getPostById feedStore ''p1'' = Some post1 \<and> updatedAt post1 \<le> 10 \<and>
   post_id post1Edited = post_id post1 \<and> createdAt post1Edited = createdAt post1 \<and>
   isEdited post1Edited \<and> updatedAt post1 \<le> updatedAt post1Edited \<and>
   content post1Edited = content post1 \<and> visibility post1Edited = FriendsOnly \<and>
   getPostById (storage_updatePost feedStore post1Edited) ''p1'' = Some post1Edited"
proof -
  have r: "updatePost 10 feedStore ''p1'' (Some ''u1'') onlyVisibility =
             (storage_updatePost feedStore post1Edited, Inr post1Edited)"
    by code_simp
  have g: "getPostById feedStore ''p1'' = Some post1" by code_simp
  have c: "updatedAt post1 \<le> 10" "post_id post1 = ''p1''"
    "update_content onlyVisibility = None" "update_visibility onlyVisibility = Some FriendsOnly"
    by (simp_all add: post1_def onlyVisibility_def)
  from updatePost_frame [OF r g] r g c
  show ?thesis by simp
qed

text \<open>
  Claim C9 as stated fails: the first post was last written at 1; the same edit made
  when the clock reads 0 succeeds and leaves \<open>updatedAt\<close> at 0, below the prior
  value.  The other fields are as the claim says.
\<close>

theorem updatePost_updatedAt_counterexample:
  "getPostById feedStore ''p1'' = Some post1 \<and> updatedAt post1 = 1 \<and>
   snd (updatePost 0 feedStore ''p1'' (Some ''u1'') onlyVisibility) = Inr post1SetBack \<and>
   updatedAt post1SetBack = 0 \<and>
   \<not> updatedAt post1 \<le> updatedAt post1SetBack"
  by code_simp


section \<open>Registration and sessions\<close>

text \<open>
  Claim C8, as the code has it.  When the e-mail address, the user name or the password
  is empty, \<open>register\<close> throws a plain \<open>Error\<close> with the message
  \<open>Email, username, and password are required\<close>, which is no \<open>AppError\<close> and has
  no error code, and the store is left as it was: no user is stored.
\<close>

theorem register_empty_input:
  "e = [] \<or> n = [] \<or> password = [] \<Longrightarrow>
   register hashPassword newId now st e n password =
     (st, Inl (PlainError ''Email, username, and password are required'')) \<and>
   \<not> isAppError (PlainError ''Email, username, and password are required'')"
  by (simp add: register_def)

theorem register_empty_input_witness:
  "(''''::string) = [] \<and>
   register exampleHash ''u3'' 5000 twoUsers ''carol@example.com'' ''carol'' '''' =
     (twoUsers, Inl (PlainError ''Email, username, and password are required''))"
  using register_empty_input [of "''carol@example.com''" "''carol''" "''''" exampleHash "''u3''" 5000 twoUsers]
  by simp

text \<open>
  Claim C8 as stated fails: with an empty e-mail address the error thrown is the plain
  \<open>Error\<close>, not an \<open>AppError\<close> of any kind; models/errors.ts has no validation
  error.
\<close>

theorem register_validation_error_counterexample:
  "snd (register exampleHash ''u3'' 5000 twoUsers '''' ''carol'' ''pw'') =
     Inl (PlainError ''Email, username, and password are required'') \<and>
   \<not> isAppError (PlainError ''Email, username, and password are required'')"
  by (simp add: register_def)

lemma getSessionById_deleteSession: "getSessionById (fst (deleteSession st i)) i = None"
  by (auto simp: getSessionById_def deleteSession_def delete_conv' split: option.splits)

text \<open>
  Claim C10.  For a session that exists and has not expired but whose user id resolves to
  no stored user, \<open>validateSession\<close> and \<open>validateSessionByToken\<close> return \<open>null\<close>
  and leave the store as it was.  A session that has expired is deleted and the result is
  \<open>null\<close>; a session that has not expired is never deleted.
\<close>

theorem validateSession_missing_user:
  "(getSessionById st sid = Some s \<and> \<not> now > expiresAt s \<and>
    getUserById st (session_userId s) = None
      \<longrightarrow> validateSession now st sid = (st, None)) \<and>
   (getSessionById st sid = Some s \<and> now > expiresAt s
      \<longrightarrow> validateSession now st sid = (fst (deleteSession st sid), None) \<and>
          getSessionById (fst (validateSession now st sid)) sid = None) \<and>
   (getSessionById st sid = Some s \<and> \<not> now > expiresAt s
      \<longrightarrow> fst (validateSession now st sid) = st) \<and>
   (getSessionByToken st t = Some s' \<and> \<not> now > expiresAt s' \<and>
    getUserById st (session_userId s') = None
      \<longrightarrow> validateSessionByToken now st t = (st, None)) \<and>
   (getSessionByToken st t = Some s' \<and> now > expiresAt s'
      \<longrightarrow> validateSessionByToken now st t = (fst (deleteSession st (session_id s')), None) \<and>
          getSessionById (fst (validateSessionByToken now st t)) (session_id s') = None) \<and>
   (getSessionByToken st t = Some s' \<and> \<not> now > expiresAt s'
      \<longrightarrow> fst (validateSessionByToken now st t) = st)"
  by (simp add: validateSession_def validateSessionByToken_def getSessionById_deleteSession)

text \<open>
  The session \<open>s1\<close> of the unknown user \<open>u9\<close> expires at 100.  At 50 both lookups
  return \<open>null\<close> and the session stays; at 200 both delete it.
\<close>

theorem validateSession_missing_user_witness:
  "getSessionById sessionStore ''s1'' = Some orphanSession \<and>
   getSessionByToken sessionStore ''t1'' = Some orphanSession \<and>
   getUserById sessionStore (session_userId orphanSession) = None \<and>
   \<not> 50 > expiresAt orphanSession \<and> 200 > expiresAt orphanSession \<and>
   validateSession 50 sessionStore ''s1'' = (sessionStore, None) \<and>
   validateSessionByToken 50 sessionStore ''t1'' = (sessionStore, None) \<and>
   snd (validateSession 200 sessionStore ''s1'') = None \<and>
   getSessionById (fst (validateSession 200 sessionStore ''s1'')) ''s1'' = None \<and>
   snd (validateSessionByToken 200 sessionStore ''t1'') = None \<and>
   getSessionById (fst (validateSessionByToken 200 sessionStore ''t1'')) ''s1'' = None"
proof -
  have g: "getSessionById sessionStore ''s1'' = Some orphanSession"
    "getSessionByToken sessionStore ''t1'' = Some orphanSession"
    "getUserById sessionStore (session_userId orphanSession) = None"
    by code_simp+
  have e: "expiresAt orphanSession = 100" "session_id orphanSession = ''s1''"
    by (simp_all add: orphanSession_def)
  from validateSession_missing_user [of sessionStore "''s1''" orphanSession 50 "''t1''" orphanSession]
       validateSession_missing_user [of sessionStore "''s1''" orphanSession 200 "''t1''" orphanSession]
       g e
  show ?thesis by (simp add: getSessionById_deleteSession)
qed


section \<open>Serialization round trip\<close>

text \<open>
  Claim C7, as the code has it.  For a post with an \<open>id\<close> and an \<open>authorId\<close> that
  are not empty and with dates that the platform prints and reads back to the same
  millisecond, \<open>deserializePost (serializePost p)\<close> is \<open>p\<close> with \<open>mimeType\<close> and
  \<open>fileSize\<close> removed from its content: \<open>id\<close>, \<open>authorId\<close>, \<open>visibility\<close>,
  \<open>createdAt\<close>, \<open>updatedAt\<close>, \<open>isEdited\<close> and the content's \<open>type\<close>,
  \<open>text\<close> and \<open>mediaUrl\<close> are reproduced.  So the round trip gives \<open>p\<close> itself
  exactly when the content of \<open>p\<close> carries neither \<open>mimeType\<close> nor \<open>fileSize\<close>.
\<close>

theorem serialize_roundtrip:
  assumes "post_id p \<noteq> []" and "authorId p \<noteq> []"
    and "toISOString (createdAt p) \<noteq> []" and "toISOString (updatedAt p) \<noteq> []"
    and "parseDate (toISOString (createdAt p)) = Some (createdAt p)"
    and "parseDate (toISOString (updatedAt p)) = Some (updatedAt p)"
  shows "deserializePost parseDate (serializePost toISOString p) =
           Inr (p\<lparr> content := (content p)\<lparr> mimeType := None, fileSize := None \<rparr> \<rparr>) \<and>
         (deserializePost parseDate (serializePost toISOString p) = Inr p
            \<longleftrightarrow> mimeType (content p) = None \<and> fileSize (content p) = None)"
proof -
  have ct: "parseContentType (Some (JString (contentTypeName t))) = Some t" for t
    by (cases t) (simp_all add: parseContentType_def contentTypeName_def)
  have vs: "parseVisibility (Some (JString (visibilityName v))) = Some v" for v
    by (cases v) (simp_all add: parseVisibility_def visibilityName_def)
  have r: "deserializePost parseDate (serializePost toISOString p) =
             Inr (p\<lparr> content := (content p)\<lparr> mimeType := None, fileSize := None \<rparr> \<rparr>)"
    using assms
    by (cases "content_text (content p)"; cases "mediaUrl (content p)")
       (simp_all add: deserializePost_def serializePost_def nonEmptyString_def asObject_def
          ct vs spreadField_def optionalString_def)
  have "p\<lparr> content := (content p)\<lparr> mimeType := None, fileSize := None \<rparr> \<rparr> = p
          \<longleftrightarrow> mimeType (content p) = None \<and> fileSize (content p) = None"
    by (cases p; cases "content p") auto
  with r show ?thesis by simp
qed

text \<open>A text post written at 2023-11-14T22:13:20.000Z and edited later comes back as it was.\<close>

theorem serialize_roundtrip_witness:
  "post_id textPost \<noteq> [] \<and> authorId textPost \<noteq> [] \<and>
   isoString (createdAt textPost) = ''2023-11-14T22:13:20.000Z'' \<and>
   isoString (updatedAt textPost) = ''2024-02-29T23:59:59.999Z'' \<and>
   isoParse (isoString (createdAt textPost)) = Some (createdAt textPost) \<and>
   isoParse (isoString (updatedAt textPost)) = Some (updatedAt textPost) \<and>
   deserializePost isoParse (serializePost isoString textPost) = Inr textPost"
proof -
  have i: "post_id textPost \<noteq> []" "authorId textPost \<noteq> []"
    by (simp_all add: textPost_def)
  have t: "isoString (createdAt textPost) = ''2023-11-14T22:13:20.000Z''"
    "isoString (updatedAt textPost) = ''2024-02-29T23:59:59.999Z''"
    by code_simp+
  have d: "isoParse (isoString (createdAt textPost)) = Some (createdAt textPost)"
    "isoParse (isoString (updatedAt textPost)) = Some (updatedAt textPost)"
    by code_simp+
  have n: "isoString (createdAt textPost) \<noteq> []" "isoString (updatedAt textPost) \<noteq> []"
    using t by simp_all
  have c: "mimeType (content textPost) = None" "fileSize (content textPost) = None"
    by (simp_all add: textPost_def textContent_def)
  from serialize_roundtrip [OF i n d] i t d c
  show ?thesis by simp
qed

text \<open>
  Claim C7 as stated fails: the image post passes \<open>validateContent\<close> and carries a
  \<open>mimeType\<close> and a \<open>fileSize\<close>; both are gone after the round trip, so the result
  is not the post.
\<close>

theorem serialize_roundtrip_counterexample:
  "valid (validateContent (content imagePost)) \<and>
   deserializePost isoParse (serializePost isoString imagePost) =
     Inr (imagePost\<lparr> content := (content imagePost)\<lparr> mimeType := None, fileSize := None \<rparr> \<rparr>) \<and>
   deserializePost isoParse (serializePost isoString imagePost) \<noteq> Inr imagePost"
  by code_simp

end
